theory Spec2Isabelle
  imports Complex_Main "HOL-Library.Log_Nat"
begin

section \<open>Low-stock alerts: the data the aggregator reads and writes\<close>

text \<open>
  The service \<^verbatim>\<open>fetchLowStockAlerts\<close> (alerts.service.js) and its controller
  \<^verbatim>\<open>getLowStockAlerts\<close> (alerts.controller.js) are embedded here. Rows of the
  tables are records; identifiers are natural numbers, names are strings, stock
  quantities (an integer column) and thresholds are integers.
\<close>

subsection \<open>JavaScript numbers\<close>

text \<open>
  A JavaScript number is an IEEE 754 double. A finite double is the rational it
  denotes; the result of an operation may also be an infinity. The sign of zero is not
  kept, and there is no NaN: line 39 divides by a positive number only.
\<close>

datatype number = Finite rat | PosInfinity | NegInfinity

text \<open>The power of two with an integer exponent.\<close>

definition pow2 :: "int \<Rightarrow> rat" where
  "pow2 e = (if 0 \<le> e then 2 ^ nat e else 1 / 2 ^ nat (- e))"

text \<open>Rounding to the nearest integer, a tie to the even one.\<close>

definition round_half_even :: "rat \<Rightarrow> int" where
  "round_half_even m =
     (let f = \<lfloor>m\<rfloor>; r = m - of_int f
      in if r < 1 / 2 then f else if 1 / 2 < r then f + 1 else if even f then f else f + 1)"

text \<open>The binary exponent of a positive rational \<open>a\<close>: the \<open>k\<close> with \<open>2^k \<le> a < 2^(k+1)\<close>.\<close>

definition ilog2 :: "rat \<Rightarrow> int" where
  "ilog2 a = (if 1 \<le> a then bitlen \<lfloor>a\<rfloor> - 1 else - bitlen (\<lceil>1 / a\<rceil> - 1))"

text \<open>
  Rounding a rational to the grid of doubles, to nearest with ties to even: 53
  significant bits, and below \<open>2^-1022\<close> the fixed spacing \<open>2^-1074\<close> of the subnormal
  numbers.
\<close>

definition round_double :: "rat \<Rightarrow> rat" where
  "round_double x =
     (if x = 0 then 0
      else let a = \<bar>x\<bar>; e = max (ilog2 a - 52) (- 1074)
           in sgn x * (of_int (round_half_even (a / pow2 e)) * pow2 e))"

text \<open>
  The double that an exact result \<open>x\<close> of an arithmetic operation becomes: rounded, and
  an infinity when the rounded value leaves the range of doubles. For a divisor other than
  zero, the JavaScript quotient \<^verbatim>\<open>x / y\<close> of two doubles is \<open>double_of (x / y)\<close>.
\<close>

definition double_of :: "rat \<Rightarrow> number" where
  "double_of x =
     (let y = round_double x
      in if 2 ^ 1024 \<le> y then PosInfinity
         else if y \<le> - (2 ^ 1024) then NegInfinity
         else Finite y)"

text \<open>\<^verbatim>\<open>Math.floor\<close>: the floor of a finite double is a double; an infinity stays.\<close>

fun Math_floor :: "number \<Rightarrow> number" where
  "Math_floor (Finite x) = Finite (of_int \<lfloor>x\<rfloor>)"
| "Math_floor PosInfinity = PosInfinity"
| "Math_floor NegInfinity = NegInfinity"

subsection \<open>Rows, alerts and the response\<close>

record warehouse =
  wh_id :: nat
  wh_company_id :: nat
  wh_name :: string

record product =
  prod_id :: nat
  prod_name :: string
  prod_sku :: string
  product_type :: string

text \<open>
  An inventory row as the query of line 11 returns it: with its product joined. Every
  row has its product (the foreign key of the schema), so \<^verbatim>\<open>item.Product\<close> is
  never \<^verbatim>\<open>null\<close>.
\<close>

record inventory =
  inv_warehouse_id :: nat
  quantity :: int
  Product :: product

record supplier =
  sup_id :: nat
  sup_name :: string
  contact_email :: string

text \<open>The object pushed at lines 44 to 54; \<open>None\<close> is JavaScript's \<^verbatim>\<open>null\<close>.\<close>

record alert =
  product_id :: nat
  product_name :: string
  sku :: string
  warehouse_id :: nat
  warehouse_name :: string
  current_stock :: int
  threshold :: int
  days_until_stockout :: "number option"
  supplier :: "supplier option"

text \<open>The body the controller hands to \<^verbatim>\<open>res.json\<close>.\<close>

record response =
  alerts :: "alert list"
  total_alerts :: nat

text \<open>What a rejected promise carries. The source defines no error class of its own.\<close>

datatype error = NotFoundError | ValidationError | DependencyFailure

section \<open>Collaborators\<close>

text \<open>
  Every \<^verbatim>\<open>await\<close> of the service is a call that may reject and that runs against
  the storage: a function from the storage to a result and the storage afterwards.
  The storage \<open>'s\<close> stays abstract.
\<close>

type_synonym ('s, 'a) query = "'s \<Rightarrow> (error + 'a) \<times> 's"

text \<open>
  The service names six things it does not define: the two model queries
  \<^verbatim>\<open>Warehouse.findAll({where: {company_id}})\<close> and
  \<^verbatim>\<open>Inventory.findAll({where: {warehouse_id}, include: [Product]})\<close>, and the helpers
  \<^verbatim>\<open>getThresholdByProductType\<close> (called without \<^verbatim>\<open>await\<close>: a plain function),
  \<^verbatim>\<open>hasRecentSalesActivity\<close>, \<^verbatim>\<open>getAverageDailySales\<close> and
  \<^verbatim>\<open>getSupplierForProduct\<close>. They are parameters of the embedding.
\<close>

text \<open>
  The average that \<^verbatim>\<open>getAverageDailySales\<close> returns is the rational that its (finite)
  double denotes.
\<close>

record 's collaborators =
  Warehouse_findAll :: "nat \<Rightarrow> ('s, warehouse list) query"
  Inventory_findAll :: "nat \<Rightarrow> ('s, inventory list) query"
  getThresholdByProductType :: "string \<Rightarrow> int"
  hasRecentSalesActivity :: "nat \<Rightarrow> nat \<Rightarrow> ('s, bool) query"
  getAverageDailySales :: "nat \<Rightarrow> nat \<Rightarrow> ('s, rat) query"
  getSupplierForProduct :: "nat \<Rightarrow> ('s, supplier option) query"

section \<open>The service and the controller\<close>

text \<open>
  The inner loop (lines 16 to 55) over the inventory rows of one warehouse. The array
  \<^verbatim>\<open>alerts\<close> is the accumulator; \<^verbatim>\<open>continue\<close> is the recursive call with the
  accumulator unchanged; a rejected \<^verbatim>\<open>await\<close> leaves the function with the error.
\<close>

fun fetchLowStockAlerts_items ::
  "'s collaborators \<Rightarrow> warehouse \<Rightarrow> inventory list \<Rightarrow> alert list \<Rightarrow> ('s, alert list) query"
where
  "fetchLowStockAlerts_items c w [] acc s = (Inr acc, s)"
| "fetchLowStockAlerts_items c w (item # items) acc s =
     (let product = Product item;
          thr = getThresholdByProductType c (product_type product)
      in if quantity item \<ge> thr then fetchLowStockAlerts_items c w items acc s
         else
           (case hasRecentSalesActivity c (prod_id product) (wh_id w) s of
              (Inl e, s1) \<Rightarrow> (Inl e, s1)
            | (Inr hasRecentSales, s1) \<Rightarrow>
                if \<not> hasRecentSales then fetchLowStockAlerts_items c w items acc s1
                else
                  (case getAverageDailySales c (prod_id product) (wh_id w) s1 of
                     (Inl e, s2) \<Rightarrow> (Inl e, s2)
                   | (Inr avgDailySales, s2) \<Rightarrow>
                       (let daysUntilStockout =
                              (if avgDailySales > 0
                               then Some (Math_floor
                                      (double_of (of_int (quantity item) / avgDailySales)))
                               else None)
                        in case getSupplierForProduct c (prod_id product) s2 of
                             (Inl e, s3) \<Rightarrow> (Inl e, s3)
                           | (Inr supplier', s3) \<Rightarrow>
                               fetchLowStockAlerts_items c w items
                                 (acc @ [\<lparr>product_id = prod_id product,
                                          product_name = prod_name product,
                                          sku = prod_sku product,
                                          warehouse_id = wh_id w,
                                          warehouse_name = wh_name w,
                                          current_stock = quantity item,
                                          threshold = thr,
                                          days_until_stockout = daysUntilStockout,
                                          supplier = supplier'\<rparr>]) s3))))"

text \<open>The outer loop (lines 9 to 56) over the warehouses of the company.\<close>

fun fetchLowStockAlerts_warehouses ::
  "'s collaborators \<Rightarrow> warehouse list \<Rightarrow> alert list \<Rightarrow> ('s, alert list) query"
where
  "fetchLowStockAlerts_warehouses c [] acc s = (Inr acc, s)"
| "fetchLowStockAlerts_warehouses c (w # ws) acc s =
     (case Inventory_findAll c (wh_id w) s of
        (Inl e, s1) \<Rightarrow> (Inl e, s1)
      | (Inr inventories, s1) \<Rightarrow>
          (case fetchLowStockAlerts_items c w inventories acc s1 of
             (Inl e, s2) \<Rightarrow> (Inl e, s2)
           | (Inr acc', s2) \<Rightarrow> fetchLowStockAlerts_warehouses c ws acc' s2))"

text \<open>\<^verbatim>\<open>fetchLowStockAlerts(companyId)\<close>: the warehouses, then the loops from an empty array.\<close>

definition fetchLowStockAlerts :: "'s collaborators \<Rightarrow> nat \<Rightarrow> ('s, alert list) query" where
  "fetchLowStockAlerts c companyId s =
     (case Warehouse_findAll c companyId s of
        (Inl e, s1) \<Rightarrow> (Inl e, s1)
      | (Inr warehouses, s1) \<Rightarrow> fetchLowStockAlerts_warehouses c warehouses [] s1)"

text \<open>
  The controller: it awaits the service and sends the alerts with their count. It
  catches nothing, so a rejection of the service is the outcome of the handler.
\<close>

definition getLowStockAlerts :: "'s collaborators \<Rightarrow> nat \<Rightarrow> ('s, response) query" where
  "getLowStockAlerts c companyId s =
     (case fetchLowStockAlerts c companyId s of
        (Inl e, s1) \<Rightarrow> (Inl e, s1)
      | (Inr as, s1) \<Rightarrow> (Inr \<lparr>alerts = as, total_alerts = length as\<rparr>, s1))"

section \<open>Read-only collaborators and the expected outcome of a request\<close>

text \<open>
  A collaborator is read-only when every call of it leaves the storage as it found it.
\<close>

definition readonly :: "'s collaborators \<Rightarrow> bool" where
  "readonly c \<longleftrightarrow>
     (\<forall>companyId s. snd (Warehouse_findAll c companyId s) = s) \<and>
     (\<forall>wid s. snd (Inventory_findAll c wid s) = s) \<and>
     (\<forall>pid wid s. snd (hasRecentSalesActivity c pid wid s) = s) \<and>
     (\<forall>pid wid s. snd (getAverageDailySales c pid wid s) = s) \<and>
     (\<forall>pid s. snd (getSupplierForProduct c pid s) = s)"

text \<open>
  The two gates of one inventory row of warehouse \<open>w\<close>, read in storage \<open>s\<close>: stock
  strictly below the threshold of the product's type, and the sales-activity lookup
  answering true.
\<close>

definition passes_gates :: "'s collaborators \<Rightarrow> 's \<Rightarrow> warehouse \<Rightarrow> inventory \<Rightarrow> bool" where
  "passes_gates c s w item \<longleftrightarrow>
     quantity item < getThresholdByProductType c (product_type (Product item)) \<and>
     fst (hasRecentSalesActivity c (prod_id (Product item)) (wh_id w) s) = Inr True"

text \<open>The alert that belongs to one inventory row of warehouse \<open>w\<close>, read in storage \<open>s\<close>.\<close>

definition expected_alert :: "'s collaborators \<Rightarrow> 's \<Rightarrow> warehouse \<Rightarrow> inventory \<Rightarrow> alert" where
  "expected_alert c s w item =
     \<lparr>product_id = prod_id (Product item),
      product_name = prod_name (Product item),
      sku = prod_sku (Product item),
      warehouse_id = wh_id w,
      warehouse_name = wh_name w,
      current_stock = quantity item,
      threshold = getThresholdByProductType c (product_type (Product item)),
      days_until_stockout =
        (case fst (getAverageDailySales c (prod_id (Product item)) (wh_id w) s) of
           Inr avg \<Rightarrow>
             if 0 < avg then Some (Math_floor (double_of (of_int (quantity item) / avg)))
             else None
         | Inl e \<Rightarrow> None),
      supplier =
        (case fst (getSupplierForProduct c (prod_id (Product item)) s) of
           Inr sp \<Rightarrow> sp
         | Inl e \<Rightarrow> None)\<rparr>"

text \<open>
  A lookup that the loop reaches for this row rejects: the row is below its threshold
  and either the sales-activity lookup rejects, or it answers true and the
  average-sales or the supplier lookup rejects.
\<close>

definition lookup_fails :: "'s collaborators \<Rightarrow> 's \<Rightarrow> warehouse \<Rightarrow> inventory \<Rightarrow> bool" where
  "lookup_fails c s w item \<longleftrightarrow>
     quantity item < getThresholdByProductType c (product_type (Product item)) \<and>
     (case fst (hasRecentSalesActivity c (prod_id (Product item)) (wh_id w) s) of
        Inl e \<Rightarrow> True
      | Inr b \<Rightarrow> b \<and>
          (isl (fst (getAverageDailySales c (prod_id (Product item)) (wh_id w) s)) \<or>
           isl (fst (getSupplierForProduct c (prod_id (Product item)) s))))"

text \<open>The warehouses and the inventory rows the two queries return (none when they reject).\<close>

definition company_warehouses :: "'s collaborators \<Rightarrow> 's \<Rightarrow> nat \<Rightarrow> warehouse list" where
  "company_warehouses c s companyId =
     (case fst (Warehouse_findAll c companyId s) of Inr ws \<Rightarrow> ws | Inl e \<Rightarrow> [])"

definition inventory_of :: "'s collaborators \<Rightarrow> 's \<Rightarrow> warehouse \<Rightarrow> inventory list" where
  "inventory_of c s w =
     (case fst (Inventory_findAll c (wh_id w) s) of
        Inr inventories \<Rightarrow> inventories
      | Inl e \<Rightarrow> [])"

text \<open>The alerts of one warehouse, in the order its inventory rows were returned.\<close>

definition warehouse_alerts :: "'s collaborators \<Rightarrow> 's \<Rightarrow> warehouse \<Rightarrow> alert list" where
  "warehouse_alerts c s w =
     map (expected_alert c s w) (filter (passes_gates c s w) (inventory_of c s w))"

definition warehouse_fails :: "'s collaborators \<Rightarrow> 's \<Rightarrow> warehouse \<Rightarrow> bool" where
  "warehouse_fails c s w \<longleftrightarrow>
     (case fst (Inventory_findAll c (wh_id w) s) of
        Inl e \<Rightarrow> True
      | Inr inventories \<Rightarrow> \<exists>item\<in>set inventories. lookup_fails c s w item)"

text \<open>Some lookup that the request reaches rejects.\<close>

definition request_fails :: "'s collaborators \<Rightarrow> nat \<Rightarrow> 's \<Rightarrow> bool" where
  "request_fails c companyId s \<longleftrightarrow>
     (case fst (Warehouse_findAll c companyId s) of
        Inl e \<Rightarrow> True
      | Inr ws \<Rightarrow> \<exists>w\<in>set ws. warehouse_fails c s w)"

section \<open>Collaborators over tables\<close>

text \<open>
  A storage of tables, after the schema of the repository's database design (companies,
  warehouses, inventory, suppliers and the product-supplier relation) and the sales
  history of the specification. Inventory rows carry their product, as the join of the
  query delivers them.
\<close>

record sale =
  sale_product_id :: nat
  sale_warehouse_id :: nat
  quantity_sold :: nat
  sold_at :: int

record store =
  tbl_companies :: "nat list"
  tbl_warehouses :: "warehouse list"
  tbl_inventory :: "inventory list"
  tbl_sales :: "sale list"
  tbl_product_suppliers :: "(nat \<times> supplier) list"

text \<open>
  The query of line 3, \<^verbatim>\<open>Warehouse.findAll({ where: { company_id: companyId } })\<close>:
  the rows of the warehouses table with that company id, in table order. Where no row
  matches the result is the empty array, not a rejection. The companies table is not
  consulted.
\<close>

definition Warehouse_findAll_where :: "nat \<Rightarrow> (store, warehouse list) query" where
  "Warehouse_findAll_where companyId s =
     (Inr (filter (\<lambda>w. wh_company_id w = companyId) (tbl_warehouses s)), s)"

text \<open>
  The query of line 11, \<^verbatim>\<open>Inventory.findAll({ where: { warehouse_id }, include: [Product] })\<close>:
  the inventory rows of that warehouse, in table order (the query asks for no order).
\<close>

definition Inventory_findAll_where :: "nat \<Rightarrow> (store, inventory list) query" where
  "Inventory_findAll_where warehouseId s =
     (Inr (filter (\<lambda>i. inv_warehouse_id i = warehouseId) (tbl_inventory s)), s)"

text \<open>
  Modelled from the spec: the configuration that the absent helpers read, namely the
  policy table from product type to threshold with its default for an unknown type
  (section 4.1, step 1), and the evaluation time that ends the trailing window.
\<close>

record config =
  threshold_policy :: "(string \<times> int) list"
  default_threshold :: int
  now :: int

text \<open>
  Modelled from the spec: \<^verbatim>\<open>getThresholdByProductType\<close>, absent from the sources.
  Section 4.1, step 1: the product type is mapped to a threshold by a fixed policy
  table, an unknown type to a default.
\<close>

definition threshold_for :: "config \<Rightarrow> string \<Rightarrow> int" where
  "threshold_for cfg t =
     (case map_of (threshold_policy cfg) t of Some n \<Rightarrow> n | None \<Rightarrow> default_threshold cfg)"

text \<open>Thirty days in milliseconds, the unit of a JavaScript timestamp.\<close>

definition thirty_days :: int where
  "thirty_days = 30 * 24 * 60 * 60 * 1000"

text \<open>
  Modelled from the spec: the qualifying sales of a product in a warehouse. Section 4.1,
  step 3: the trailing 30-day window ending at evaluation time, inclusive of
  "now - 30 days", exclusive of future-dated records.
\<close>

definition qualifying_sales :: "config \<Rightarrow> nat \<Rightarrow> nat \<Rightarrow> store \<Rightarrow> sale list" where
  "qualifying_sales cfg pid wid s =
     filter (\<lambda>r. sale_product_id r = pid \<and> sale_warehouse_id r = wid \<and>
                 now cfg - thirty_days \<le> sold_at r \<and> sold_at r \<le> now cfg) (tbl_sales s)"

text \<open>
  Modelled from the spec: \<^verbatim>\<open>hasRecentSalesActivity\<close>, absent from the sources.
  Section 4.1, step 3: at least one sale of the product in that warehouse within the
  window.
\<close>

definition sales_in_window :: "config \<Rightarrow> nat \<Rightarrow> nat \<Rightarrow> (store, bool) query" where
  "sales_in_window cfg pid wid s = (Inr (qualifying_sales cfg pid wid s \<noteq> []), s)"

text \<open>
  Modelled from the spec: \<^verbatim>\<open>getAverageDailySales\<close>, absent from the sources.
  Section 4.1, step 4: the total quantity sold over the same window, divided by 30. The
  division is the one of JavaScript, so the average is the double nearest to the exact
  quotient (a total sold is far from the range where a quotient by 30 is infinite).
\<close>

definition average_daily_sales :: "config \<Rightarrow> nat \<Rightarrow> nat \<Rightarrow> (store, rat) query" where
  "average_daily_sales cfg pid wid s =
     (Inr (round_double
             (of_nat (sum_list (map quantity_sold (qualifying_sales cfg pid wid s))) / 30)), s)"

text \<open>
  Modelled from the spec: the choice among several suppliers. Section 4.1, step 5: one
  is picked deterministically, by default the one with the lowest supplier id; none
  gives \<^verbatim>\<open>null\<close>.
\<close>

fun lowest_id :: "supplier list \<Rightarrow> supplier option" where
  "lowest_id [] = None"
| "lowest_id (x # xs) =
     (case lowest_id xs of
        None \<Rightarrow> Some x
      | Some y \<Rightarrow> if sup_id x \<le> sup_id y then Some x else Some y)"

text \<open>
  Modelled from the spec: \<^verbatim>\<open>getSupplierForProduct\<close>, absent from the sources.
  Section 4.1, step 5, over the product-supplier relation.
\<close>

definition supplier_for :: "nat \<Rightarrow> (store, supplier option) query" where
  "supplier_for pid s =
     (Inr (lowest_id (map snd (filter (\<lambda>ps. fst ps = pid) (tbl_product_suppliers s)))), s)"

definition store_collaborators :: "config \<Rightarrow> store collaborators" where
  "store_collaborators cfg =
     \<lparr>Warehouse_findAll = Warehouse_findAll_where,
      Inventory_findAll = Inventory_findAll_where,
      getThresholdByProductType = threshold_for cfg,
      hasRecentSalesActivity = sales_in_window cfg,
      getAverageDailySales = average_daily_sales cfg,
      getSupplierForProduct = supplier_for\<rparr>"

section \<open>Sample data\<close>

text \<open>
  Two companies. Company 7 has the warehouses 11 and 12, company 8 the warehouse 13; no
  company has the id 99. Thresholds are 20 for a simple product and 10 for a bundle.
\<close>

definition demo_config :: config where
  "demo_config =
     \<lparr>threshold_policy = [(''simple'', 20), (''bundle'', 10)],
      default_threshold = 20,
      now = 100 * thirty_days\<rparr>"

definition wh_main :: warehouse where
  "wh_main = \<lparr>wh_id = 11, wh_company_id = 7, wh_name = ''Main Warehouse''\<rparr>"

definition wh_overflow :: warehouse where
  "wh_overflow = \<lparr>wh_id = 12, wh_company_id = 7, wh_name = ''Overflow''\<rparr>"

definition wh_depot :: warehouse where
  "wh_depot = \<lparr>wh_id = 13, wh_company_id = 8, wh_name = ''Depot''\<rparr>"

definition widget_a :: product where
  "widget_a = \<lparr>prod_id = 21, prod_name = ''Widget A'', prod_sku = ''WID-001'',
               product_type = ''simple''\<rparr>"

text \<open>Stock 2, sixty sold in the window: an alert with one day left.\<close>

definition row_widget_e :: inventory where
  "row_widget_e =
     \<lparr>inv_warehouse_id = 11, quantity = 2,
      Product = \<lparr>prod_id = 25, prod_name = ''Widget E'', prod_sku = ''WID-005'',
                 product_type = ''simple''\<rparr>\<rparr>"

text \<open>Stock 20, exactly the threshold of a simple product, with recent sales.\<close>

definition row_widget_a :: inventory where
  "row_widget_a = \<lparr>inv_warehouse_id = 11, quantity = 20, Product = widget_a\<rparr>"

text \<open>Stock 5, ten sold in the window, two suppliers.\<close>

definition row_widget_b :: inventory where
  "row_widget_b =
     \<lparr>inv_warehouse_id = 11, quantity = 5,
      Product = \<lparr>prod_id = 22, prod_name = ''Widget B'', prod_sku = ''WID-002'',
                 product_type = ''simple''\<rparr>\<rparr>"

text \<open>Stock 0, the only sale one millisecond older than the window.\<close>

definition row_kit_c :: inventory where
  "row_kit_c =
     \<lparr>inv_warehouse_id = 11, quantity = 0,
      Product = \<lparr>prod_id = 23, prod_name = ''Kit C'', prod_sku = ''KIT-003'',
                 product_type = ''bundle''\<rparr>\<rparr>"

text \<open>Stock 3, one sold in the window, no supplier.\<close>

definition row_kit_d :: inventory where
  "row_kit_d =
     \<lparr>inv_warehouse_id = 12, quantity = 3,
      Product = \<lparr>prod_id = 24, prod_name = ''Kit D'', prod_sku = ''KIT-004'',
                 product_type = ''bundle''\<rparr>\<rparr>"

definition row_widget_a_depot :: inventory where
  "row_widget_a_depot = \<lparr>inv_warehouse_id = 13, quantity = 1, Product = widget_a\<rparr>"

definition supplier_corp :: supplier where
  "supplier_corp =
     \<lparr>sup_id = 37, sup_name = ''Supplier Corp'', contact_email = ''orders@supplier.example''\<rparr>"

definition acme :: supplier where
  "acme = \<lparr>sup_id = 39, sup_name = ''Acme'', contact_email = ''sales@acme.example''\<rparr>"

definition demo_store :: store where
  "demo_store =
     \<lparr>tbl_companies = [7, 8],
      tbl_warehouses = [wh_main, wh_overflow, wh_depot],
      tbl_inventory =
        [row_widget_e, row_widget_a, row_widget_b, row_kit_c, row_kit_d, row_widget_a_depot],
      tbl_sales =
        [\<lparr>sale_product_id = 25, sale_warehouse_id = 11, quantity_sold = 60,
          sold_at = 100 * thirty_days - 1000\<rparr>,
         \<lparr>sale_product_id = 21, sale_warehouse_id = 11, quantity_sold = 7,
          sold_at = 100 * thirty_days - 2000\<rparr>,
         \<lparr>sale_product_id = 22, sale_warehouse_id = 11, quantity_sold = 4,
          sold_at = 100 * thirty_days - 3000\<rparr>,
         \<lparr>sale_product_id = 22, sale_warehouse_id = 11, quantity_sold = 6,
          sold_at = 99 * thirty_days\<rparr>,
         \<lparr>sale_product_id = 23, sale_warehouse_id = 11, quantity_sold = 9,
          sold_at = 99 * thirty_days - 1\<rparr>,
         \<lparr>sale_product_id = 24, sale_warehouse_id = 12, quantity_sold = 1,
          sold_at = 100 * thirty_days\<rparr>,
         \<lparr>sale_product_id = 21, sale_warehouse_id = 13, quantity_sold = 30,
          sold_at = 100 * thirty_days - 5\<rparr>],
      tbl_product_suppliers = [(22, acme), (22, supplier_corp), (25, supplier_corp)]\<rparr>"

definition demo :: "store collaborators" where
  "demo = store_collaborators demo_config"

text \<open>What company 7 is answered on the sample data.\<close>

definition alert_widget_e :: alert where
  "alert_widget_e =
     \<lparr>product_id = 25, product_name = ''Widget E'', sku = ''WID-005'',
      warehouse_id = 11, warehouse_name = ''Main Warehouse'',
      current_stock = 2, threshold = 20, days_until_stockout = Some (Finite 1),
      supplier = Some supplier_corp\<rparr>"

definition alert_widget_b :: alert where
  "alert_widget_b =
     \<lparr>product_id = 22, product_name = ''Widget B'', sku = ''WID-002'',
      warehouse_id = 11, warehouse_name = ''Main Warehouse'',
      current_stock = 5, threshold = 20, days_until_stockout = Some (Finite 15),
      supplier = Some supplier_corp\<rparr>"

definition alert_kit_d :: alert where
  "alert_kit_d =
     \<lparr>product_id = 24, product_name = ''Kit D'', sku = ''KIT-004'',
      warehouse_id = 12, warehouse_name = ''Overflow'',
      current_stock = 3, threshold = 10, days_until_stockout = Some (Finite 90),
      supplier = None\<rparr>"

definition demo_alerts :: "alert list" where
  "demo_alerts = [alert_widget_e, alert_widget_b, alert_kit_d]"

text \<open>The same collaborators with one lookup that rejects.\<close>

definition warehouse_lookup_down :: "store collaborators" where
  "warehouse_lookup_down =
     demo\<lparr>Warehouse_findAll := (\<lambda>companyId s. (Inl NotFoundError, s))\<rparr>"

definition supplier_lookup_down :: "store collaborators" where
  "supplier_lookup_down =
     demo\<lparr>getSupplierForProduct :=
            (\<lambda>pid s. if pid = 24 then (Inl DependencyFailure, s) else supplier_for pid s)\<rparr>"

definition sales_lookup_down :: "store collaborators" where
  "sales_lookup_down =
     demo\<lparr>hasRecentSalesActivity :=
            (\<lambda>pid wid s. if pid = 22 then (Inl DependencyFailure, s)
                          else sales_in_window demo_config pid wid s)\<rparr>"

text \<open>
  The tables a moment later: a company 99 has been registered, nothing else has changed.
\<close>

definition demo_store_later :: store where
  "demo_store_later = demo_store\<lparr>tbl_companies := [7, 8, 99]\<rparr>"

text \<open>
  Other tables: company 9 with the warehouse 14. Widget F has stock 23 and 23 sold in the
  window; Widget G has stock -3 (oversold) and 30 sold in the window.
\<close>

definition wh_annex :: warehouse where
  "wh_annex = \<lparr>wh_id = 14, wh_company_id = 9, wh_name = ''Annex''\<rparr>"

definition row_widget_f :: inventory where
  "row_widget_f =
     \<lparr>inv_warehouse_id = 14, quantity = 23,
      Product = \<lparr>prod_id = 26, prod_name = ''Widget F'', prod_sku = ''WID-006'',
                 product_type = ''bundle-large''\<rparr>\<rparr>"

definition row_widget_g :: inventory where
  "row_widget_g =
     \<lparr>inv_warehouse_id = 14, quantity = - 3,
      Product = \<lparr>prod_id = 27, prod_name = ''Widget G'', prod_sku = ''WID-007'',
                 product_type = ''simple''\<rparr>\<rparr>"

definition edge_config :: config where
  "edge_config =
     \<lparr>threshold_policy = [(''simple'', 20), (''bundle'', 10), (''bundle-large'', 50)],
      default_threshold = 20,
      now = 100 * thirty_days\<rparr>"

definition edge_store :: store where
  "edge_store =
     \<lparr>tbl_companies = [9],
      tbl_warehouses = [wh_annex],
      tbl_inventory = [row_widget_f, row_widget_g],
      tbl_sales =
        [\<lparr>sale_product_id = 26, sale_warehouse_id = 14, quantity_sold = 23,
          sold_at = 100 * thirty_days - 1000\<rparr>,
         \<lparr>sale_product_id = 27, sale_warehouse_id = 14, quantity_sold = 30,
          sold_at = 100 * thirty_days - 2000\<rparr>],
      tbl_product_suppliers = []\<rparr>"

definition edge :: "store collaborators" where
  "edge = store_collaborators edge_config"

definition alert_widget_f :: alert where
  "alert_widget_f =
     \<lparr>product_id = 26, product_name = ''Widget F'', sku = ''WID-006'',
      warehouse_id = 14, warehouse_name = ''Annex'',
      current_stock = 23, threshold = 50, days_until_stockout = Some (Finite 29),
      supplier = None\<rparr>"

definition alert_widget_g :: alert where
  "alert_widget_g =
     \<lparr>product_id = 27, product_name = ''Widget G'', sku = ''WID-007'',
      warehouse_id = 14, warehouse_name = ''Annex'',
      current_stock = - 3, threshold = 20, days_until_stockout = Some (Finite (- 3)),
      supplier = None\<rparr>"

section \<open>Two requests with the same answers\<close>

text \<open>
  The collaborators \<open>c\<close> in storage \<open>s\<close> and the collaborators \<open>c'\<close> in storage \<open>s'\<close>
  answer every lookup alike.
\<close>

definition same_answers :: "'s collaborators \<Rightarrow> 's \<Rightarrow> 't collaborators \<Rightarrow> 't \<Rightarrow> bool" where
  "same_answers c s c' s' \<longleftrightarrow>
     (\<forall>companyId. fst (Warehouse_findAll c companyId s) = fst (Warehouse_findAll c' companyId s')) \<and>
     (\<forall>wid. fst (Inventory_findAll c wid s) = fst (Inventory_findAll c' wid s')) \<and>
     (\<forall>t. getThresholdByProductType c t = getThresholdByProductType c' t) \<and>
     (\<forall>pid wid. fst (hasRecentSalesActivity c pid wid s) =
                 fst (hasRecentSalesActivity c' pid wid s')) \<and>
     (\<forall>pid wid. fst (getAverageDailySales c pid wid s) =
                 fst (getAverageDailySales c' pid wid s')) \<and>
     (\<forall>pid. fst (getSupplierForProduct c pid s) = fst (getSupplierForProduct c' pid s'))"

section \<open>Doubles\<close>

lemma round_half_even_ge: "of_int j \<le> m \<Longrightarrow> j \<le> round_half_even m"
proof -
  assume "of_int j \<le> m"
  then have "j \<le> \<lfloor>m\<rfloor>" by (simp add: le_floor_iff)
  moreover have "\<lfloor>m\<rfloor> \<le> round_half_even m"
    by (simp add: round_half_even_def Let_def)
  ultimately show ?thesis by simp
qed

lemma round_half_even_le: "m \<le> of_int j \<Longrightarrow> round_half_even m \<le> j"
proof (cases "m = of_int j")
  case True
  then show ?thesis by (simp add: round_half_even_def Let_def)
next
  case False
  assume "m \<le> of_int j"
  with False have "m < of_int j" by simp
  then have "\<lfloor>m\<rfloor> < j" by (simp add: floor_less_iff)
  moreover have "round_half_even m \<le> \<lfloor>m\<rfloor> + 1"
    by (simp add: round_half_even_def Let_def)
  ultimately show ?thesis by simp
qed

lemma ilog2_le_52:
  assumes "0 < a" and "a < 2 ^ 53"
  shows "ilog2 a \<le> 52"
proof (cases "1 \<le> a")
  case True
  have "\<lfloor>a\<rfloor> < 2 ^ 53"
    using assms(2) by (simp add: floor_less_iff)
  then have "bitlen \<lfloor>a\<rfloor> \<le> 53"
    by (simp add: bitlen_le_iff_power)
  then show ?thesis
    using True by (simp add: ilog2_def)
next
  case False
  then show ?thesis
    using bitlen_nonneg [of "\<lceil>1 / a\<rceil> - 1"] by (simp add: ilog2_def)
qed

text \<open>
  Below \<open>2^53\<close> in magnitude every integer is a double, so rounding does not cross an
  integer.
\<close>

lemma round_double_integer_bounds:
  assumes small: "\<bar>x\<bar> < 2 ^ 53"
  shows "(of_int j \<le> x \<longrightarrow> of_int j \<le> round_double x) \<and>
         (x \<le> of_int j \<longrightarrow> round_double x \<le> of_int j)"
proof (cases "x = 0")
  case True
  then show ?thesis by (simp add: round_double_def)
next
  case False
  define e where "e = max (ilog2 \<bar>x\<bar> - 52) (- 1074)"
  define k where "k = nat (- e)"
  define r where "r = round_half_even (\<bar>x\<bar> * 2 ^ k)"
  have "e \<le> 0"
    using ilog2_le_52 [of "\<bar>x\<bar>"] False small by (simp add: e_def)
  then have p: "pow2 e = 1 / 2 ^ k"
    by (auto simp: pow2_def k_def)
  have rd: "round_double x = sgn x * (of_int r / 2 ^ k)"
    using False by (simp add: round_double_def Let_def e_def [symmetric] p r_def)
  have up: "of_int i \<le> \<bar>x\<bar> \<Longrightarrow> of_int i \<le> of_int r / (2 ^ k :: rat)" for i
  proof -
    assume "of_int i \<le> \<bar>x\<bar>"
    then have "of_int (i * 2 ^ k) \<le> \<bar>x\<bar> * 2 ^ k" by simp
    then have "i * 2 ^ k \<le> r"
      unfolding r_def by (rule round_half_even_ge)
    then have "(of_int (i * 2 ^ k) :: rat) \<le> of_int r" by (simp only: of_int_le_iff)
    then show ?thesis by (simp add: pos_le_divide_eq)
  qed
  have down: "\<bar>x\<bar> \<le> of_int i \<Longrightarrow> of_int r / (2 ^ k :: rat) \<le> of_int i" for i
  proof -
    assume "\<bar>x\<bar> \<le> of_int i"
    then have "\<bar>x\<bar> * 2 ^ k \<le> of_int (i * 2 ^ k)" by simp
    then have "r \<le> i * 2 ^ k"
      unfolding r_def by (rule round_half_even_le)
    then have "(of_int r :: rat) \<le> of_int (i * 2 ^ k)" by (simp only: of_int_le_iff)
    then show ?thesis by (simp add: pos_divide_le_eq)
  qed
  show ?thesis
  proof (cases "0 < x")
    case True
    then show ?thesis
      using up [of j] down [of j] by (simp add: rd)
  next
    case neg: False
    with False have "x < 0" by simp
    then show ?thesis
      using up [of "- j"] down [of "- j"] by (auto simp: rd)
  qed
qed

lemma floor_round_double:
  assumes "\<bar>x\<bar> < 2 ^ 53"
  shows "double_of x = Finite (round_double x) \<and>
         \<lfloor>x\<rfloor> \<le> \<lfloor>round_double x\<rfloor> \<and> \<lfloor>round_double x\<rfloor> \<le> \<lfloor>x\<rfloor> + 1"
proof -
  have lo: "of_int \<lfloor>x\<rfloor> \<le> round_double x"
    using round_double_integer_bounds [OF assms, of "\<lfloor>x\<rfloor>"] by simp
  have "x \<le> of_int (\<lfloor>x\<rfloor> + 1)"
    by (metis floor_less_iff less_add_one less_imp_le)
  then have hi: "round_double x \<le> of_int (\<lfloor>x\<rfloor> + 1)"
    using round_double_integer_bounds [OF assms, of "\<lfloor>x\<rfloor> + 1"] by blast
  have "- (2 ^ 53) \<le> x" "x \<le> 2 ^ 53"
    using assms by (auto simp: abs_less_iff)
  then have "- (2 ^ 53) \<le> round_double x" "round_double x \<le> 2 ^ 53"
    using round_double_integer_bounds [OF assms, of "- (2 ^ 53)"]
      round_double_integer_bounds [OF assms, of "2 ^ 53"] by auto
  then have fin: "double_of x = Finite (round_double x)"
    by (simp add: double_of_def Let_def)
  have "\<lfloor>x\<rfloor> \<le> \<lfloor>round_double x\<rfloor>"
    using lo by (simp add: le_floor_iff)
  moreover have "\<lfloor>round_double x\<rfloor> \<le> \<lfloor>x\<rfloor> + 1"
    using hi by (metis floor_mono floor_of_int)
  ultimately show ?thesis
    using fin by simp
qed

text \<open>Evaluating the bit length and the floor on numerals.\<close>

lemma bitlen_numeral_simps:
  "bitlen 1 = 1"
  "bitlen (numeral (Num.Bit0 n)) = bitlen (numeral n) + 1"
  "bitlen (numeral (Num.Bit1 n)) = bitlen (numeral n) + 1"
  "bitlen (- numeral n) = 0"
proof -
  show "bitlen 1 = 1" by (subst compute_bitlen) simp
  have "bitlen (numeral (Num.Bit0 n)) = bitlen (numeral (Num.Bit0 n) div 2) + 1"
    by (subst compute_bitlen) simp
  then show "bitlen (numeral (Num.Bit0 n)) = bitlen (numeral n) + 1" by simp
  have "bitlen (numeral (Num.Bit1 n)) = bitlen (numeral (Num.Bit1 n) div 2) + 1"
    by (subst compute_bitlen) simp
  then show "bitlen (numeral (Num.Bit1 n)) = bitlen (numeral n) + 1" by simp
  show "bitlen (- numeral n) = 0" by (simp add: bitlen_eq_zero_iff)
qed

lemma floor_rat_numeral_simps:
  "\<lfloor>(numeral a :: rat) / numeral b\<rfloor> = numeral a div numeral b"
  "\<lfloor>- (numeral a :: rat) / numeral b\<rfloor> = - numeral a div numeral b"
  "\<lfloor>- ((numeral a :: rat) / numeral b)\<rfloor> = - numeral a div numeral b"
  "\<lceil>(numeral a :: rat) / numeral b\<rceil> = - (- numeral a div numeral b)"
  using floor_divide_of_int_eq [of "numeral a" "numeral b", where ?'a = rat]
    floor_divide_of_int_eq [of "- numeral a" "numeral b", where ?'a = rat]
  by (simp_all add: ceiling_def)

lemmas number_defs = round_double_def double_of_def ilog2_def pow2_def round_half_even_def
  Let_def bitlen_numeral_simps floor_rat_numeral_simps

text \<open>The averages and the day counts of the sample data.\<close>

lemma sample_doubles:
  "0 < round_double 2"
  "0 < round_double 1"
  "0 < round_double (1 / 3)"
  "0 < round_double (1 / 30)"
  "0 < round_double (23 / 30)"
  "Math_floor (double_of (2 / round_double 2)) = Finite 1"
  "Math_floor (double_of (1 / round_double 1)) = Finite 1"
  "Math_floor (double_of (5 / round_double (1 / 3))) = Finite 15"
  "Math_floor (double_of (3 / round_double (1 / 30))) = Finite 90"
  "Math_floor (double_of (23 / round_double (23 / 30))) = Finite 29"
  "Math_floor (double_of (- 3 / round_double 1)) = Finite (- 3)"
  "Math_floor (double_of (- (3 / round_double 1))) = Finite (- 3)"
  by (simp_all add: number_defs)

section \<open>The loops under read-only collaborators\<close>

lemma readonly_Warehouse: "readonly c \<Longrightarrow> Warehouse_findAll c i s = (r, s') \<Longrightarrow> s' = s"
  unfolding readonly_def by (metis snd_conv)

lemma readonly_Inventory: "readonly c \<Longrightarrow> Inventory_findAll c i s = (r, s') \<Longrightarrow> s' = s"
  unfolding readonly_def by (metis snd_conv)

lemma readonly_hasRecent:
  "readonly c \<Longrightarrow> hasRecentSalesActivity c p i s = (r, s') \<Longrightarrow> s' = s"
  unfolding readonly_def by (metis snd_conv)

lemma readonly_getAverage:
  "readonly c \<Longrightarrow> getAverageDailySales c p i s = (r, s') \<Longrightarrow> s' = s"
  unfolding readonly_def by (metis snd_conv)

lemma readonly_getSupplier:
  "readonly c \<Longrightarrow> getSupplierForProduct c p s = (r, s') \<Longrightarrow> s' = s"
  unfolding readonly_def by (metis snd_conv)

lemmas readonlyD = readonly_Warehouse readonly_Inventory readonly_hasRecent
  readonly_getAverage readonly_getSupplier

lemma items_frame:
  "readonly c \<Longrightarrow> snd (fetchLowStockAlerts_items c w items acc s) = s"
proof (induction items arbitrary: acc s)
  case Nil
  show ?case by simp
next
  case (Cons item items)
  show ?case
    using Cons.prems Cons.IH
    by (auto simp: Let_def split: prod.splits sum.splits dest: readonlyD)
qed

lemma warehouses_frame:
  "readonly c \<Longrightarrow> snd (fetchLowStockAlerts_warehouses c ws acc s) = s"
proof (induction ws arbitrary: acc s)
  case Nil
  show ?case by simp
next
  case (Cons w ws)
  show ?case
    using Cons.prems Cons.IH items_frame [OF Cons.prems]
    apply (auto simp: Let_def split: prod.splits sum.splits dest: readonlyD)
    by (metis snd_conv readonly_Inventory)+
qed

lemma fetch_frame: "readonly c \<Longrightarrow> snd (fetchLowStockAlerts c companyId s) = s"
proof -
  assume ro: "readonly c"
  obtain r where h: "Warehouse_findAll c companyId s = (r, s)"
    using ro by (metis readonly_Warehouse surj_pair)
  show ?thesis
    using warehouses_frame [OF ro] by (simp add: fetchLowStockAlerts_def h split: sum.splits)
qed

text \<open>One round of the inner loop, with every lookup read in the same storage.\<close>

lemma items_Cons_readonly:
  assumes ro: "readonly c"
  shows "fetchLowStockAlerts_items c w (item # items) acc s =
     (if quantity item \<ge> getThresholdByProductType c (product_type (Product item))
      then fetchLowStockAlerts_items c w items acc s
      else
        (case fst (hasRecentSalesActivity c (prod_id (Product item)) (wh_id w) s) of
           Inl e \<Rightarrow> (Inl e, s)
         | Inr b \<Rightarrow>
             if \<not> b then fetchLowStockAlerts_items c w items acc s
             else
               (case fst (getAverageDailySales c (prod_id (Product item)) (wh_id w) s) of
                  Inl e \<Rightarrow> (Inl e, s)
                | Inr avg \<Rightarrow>
                    (case fst (getSupplierForProduct c (prod_id (Product item)) s) of
                       Inl e \<Rightarrow> (Inl e, s)
                     | Inr sp \<Rightarrow>
                         fetchLowStockAlerts_items c w items
                           (acc @ [expected_alert c s w item]) s))))"
proof -
  obtain r1 where h: "hasRecentSalesActivity c (prod_id (Product item)) (wh_id w) s = (r1, s)"
    using ro by (metis readonly_hasRecent surj_pair)
  obtain r2 where a: "getAverageDailySales c (prod_id (Product item)) (wh_id w) s = (r2, s)"
    using ro by (metis readonly_getAverage surj_pair)
  obtain r3 where g: "getSupplierForProduct c (prod_id (Product item)) s = (r3, s)"
    using ro by (metis readonly_getSupplier surj_pair)
  show ?thesis
    by (simp add: h a g Let_def expected_alert_def split: sum.splits)
qed

lemma warehouses_Cons_readonly:
  assumes ro: "readonly c"
  shows "fetchLowStockAlerts_warehouses c (w # ws) acc s =
     (case fst (Inventory_findAll c (wh_id w) s) of
        Inl e \<Rightarrow> (Inl e, s)
      | Inr inventories \<Rightarrow>
          (case fst (fetchLowStockAlerts_items c w inventories acc s) of
             Inl e \<Rightarrow> (Inl e, s)
           | Inr acc' \<Rightarrow> fetchLowStockAlerts_warehouses c ws acc' s))"
proof -
  obtain r1 where h: "Inventory_findAll c (wh_id w) s = (r1, s)"
    using ro by (metis readonly_Inventory surj_pair)
  have f: "\<And>inventories. fetchLowStockAlerts_items c w inventories acc s =
      (fst (fetchLowStockAlerts_items c w inventories acc s), s)"
    using items_frame [OF ro] by (metis prod.collapse)
  show ?thesis
    apply (simp add: h split: sum.splits)
    apply (intro allI impI)
    subgoal for inventories
      using f [of inventories]
      by (cases "fst (fetchLowStockAlerts_items c w inventories acc s)") auto
    done
qed

lemma fetch_readonly:
  assumes ro: "readonly c"
  shows "fetchLowStockAlerts c companyId s =
     (case fst (Warehouse_findAll c companyId s) of
        Inl e \<Rightarrow> (Inl e, s)
      | Inr ws \<Rightarrow> (fst (fetchLowStockAlerts_warehouses c ws [] s), s))"
proof -
  obtain r where h: "Warehouse_findAll c companyId s = (r, s)"
    using ro by (metis readonly_Warehouse surj_pair)
  show ?thesis
    using warehouses_frame [OF ro]
    by (simp add: fetchLowStockAlerts_def h prod_eq_iff split: sum.splits)
qed

subsection \<open>When the loops reject\<close>

lemma items_fails_iff:
  "readonly c \<Longrightarrow>
   isl (fst (fetchLowStockAlerts_items c w items acc s)) \<longleftrightarrow>
     (\<exists>item\<in>set items. lookup_fails c s w item)"
proof (induction items arbitrary: acc)
  case Nil
  show ?case by simp
next
  case (Cons item items)
  show ?case
    using Cons.IH [OF Cons.prems]
    by (auto simp: items_Cons_readonly [OF Cons.prems] lookup_fails_def
             simp del: fetchLowStockAlerts_items.simps split: sum.splits)
qed

lemma warehouses_fails_iff:
  "readonly c \<Longrightarrow>
   isl (fst (fetchLowStockAlerts_warehouses c ws acc s)) \<longleftrightarrow>
     (\<exists>w\<in>set ws. warehouse_fails c s w)"
proof (induction ws arbitrary: acc)
  case Nil
  show ?case by simp
next
  case (Cons w ws)
  note ro = Cons.prems
  show ?case
  proof (cases "fst (Inventory_findAll c (wh_id w) s)")
    case (Inl e)
    then show ?thesis
      by (simp add: warehouses_Cons_readonly [OF ro] warehouse_fails_def
               del: fetchLowStockAlerts_warehouses.simps)
  next
    case (Inr inventories)
    show ?thesis
    proof (cases "fst (fetchLowStockAlerts_items c w inventories acc s)")
      case (Inl e)
      then have "\<exists>item\<in>set inventories. lookup_fails c s w item"
        using items_fails_iff [OF ro, of w inventories acc s] by simp
      then show ?thesis
        using Inr Inl
        by (simp add: warehouses_Cons_readonly [OF ro] warehouse_fails_def
                 del: fetchLowStockAlerts_warehouses.simps)
    next
      case (Inr acc')
      then have "\<not> (\<exists>item\<in>set inventories. lookup_fails c s w item)"
        using items_fails_iff [OF ro, of w inventories acc s] by simp
      then show ?thesis
        using \<open>fst (Inventory_findAll c (wh_id w) s) = Inr inventories\<close> Inr
          Cons.IH [OF ro, of acc']
        by (simp add: warehouses_Cons_readonly [OF ro] warehouse_fails_def
                 del: fetchLowStockAlerts_warehouses.simps)
    qed
  qed
qed

lemma fetch_fails_iff:
  "readonly c \<Longrightarrow>
   isl (fst (fetchLowStockAlerts c companyId s)) \<longleftrightarrow> request_fails c companyId s"
  using warehouses_fails_iff [of c _ "[]" s]
  by (simp add: fetch_readonly request_fails_def split: sum.splits)

subsection \<open>What the loops return\<close>

lemma items_success:
  "readonly c \<Longrightarrow> fst (fetchLowStockAlerts_items c w items acc s) = Inr out \<Longrightarrow>
   out = acc @ map (expected_alert c s w) (filter (passes_gates c s w) items)"
proof (induction items arbitrary: acc)
  case Nil
  then show ?case by simp
next
  case (Cons item items)
  show ?case
    using Cons.IH [OF Cons.prems(1), of acc]
      Cons.IH [OF Cons.prems(1), of "acc @ [expected_alert c s w item]"] Cons.prems(2)
    by (auto simp: items_Cons_readonly [OF Cons.prems(1)] passes_gates_def
             simp del: fetchLowStockAlerts_items.simps split: sum.splits if_splits)
qed

lemma warehouses_success:
  "readonly c \<Longrightarrow> fst (fetchLowStockAlerts_warehouses c ws acc s) = Inr out \<Longrightarrow>
   out = acc @ concat (map (warehouse_alerts c s) ws)"
proof (induction ws arbitrary: acc)
  case Nil
  then show ?case by simp
next
  case (Cons w ws)
  note ro = Cons.prems(1)
  from Cons.prems(2) obtain inventories acc' where
    inv: "fst (Inventory_findAll c (wh_id w) s) = Inr inventories" and
    its: "fst (fetchLowStockAlerts_items c w inventories acc s) = Inr acc'" and
    rest: "fst (fetchLowStockAlerts_warehouses c ws acc' s) = Inr out"
    by (auto simp: warehouses_Cons_readonly [OF ro]
             simp del: fetchLowStockAlerts_warehouses.simps split: sum.splits)
  have "acc' = acc @ warehouse_alerts c s w"
    using items_success [OF ro its] inv by (simp add: warehouse_alerts_def inventory_of_def)
  then show ?case
    using Cons.IH [OF ro rest] by simp
qed

lemma fetch_success:
  "readonly c \<Longrightarrow> fst (fetchLowStockAlerts c companyId s) = Inr out \<Longrightarrow>
   out = concat (map (warehouse_alerts c s) (company_warehouses c s companyId))"
  using warehouses_success [of c _ "[]" s out]
  by (auto simp: fetch_readonly company_warehouses_def split: sum.splits)

lemma fetch_success_mem:
  assumes "readonly c" and "fst (fetchLowStockAlerts c companyId s) = Inr out"
  shows "a \<in> set out \<longleftrightarrow>
     (\<exists>w\<in>set (company_warehouses c s companyId). \<exists>item\<in>set (inventory_of c s w).
        passes_gates c s w item \<and> a = expected_alert c s w item)"
  unfolding fetch_success [OF assms] by (auto simp: warehouse_alerts_def)

subsection \<open>Stock below threshold, in any storage\<close>

lemma items_stock_below_threshold:
  "fetchLowStockAlerts_items c w items acc s = (Inr out, s') \<Longrightarrow>
   \<forall>a\<in>set acc. current_stock a < threshold a \<Longrightarrow>
   \<forall>a\<in>set out. current_stock a < threshold a"
proof (induction items arbitrary: acc s)
  case Nil
  then show ?case by simp
next
  case (Cons item items)
  let ?thr = "getThresholdByProductType c (product_type (Product item))"
  show ?case
  proof (cases "quantity item \<ge> ?thr")
    case True
    then show ?thesis
      using Cons.prems Cons.IH [of acc s] by simp
  next
    case False
    then show ?thesis
      using Cons.prems
      by (auto simp: Let_def split: prod.splits sum.splits if_splits dest!: Cons.IH)
  qed
qed

lemma warehouses_stock_below_threshold:
  "fetchLowStockAlerts_warehouses c ws acc s = (Inr out, s') \<Longrightarrow>
   \<forall>a\<in>set acc. current_stock a < threshold a \<Longrightarrow>
   \<forall>a\<in>set out. current_stock a < threshold a"
proof (induction ws arbitrary: acc s)
  case Nil
  then show ?case by simp
next
  case (Cons w ws)
  from Cons.prems(1) obtain inventories s1 acc' s2 where
    "Inventory_findAll c (wh_id w) s = (Inr inventories, s1)"
    "fetchLowStockAlerts_items c w inventories acc s1 = (Inr acc', s2)"
    "fetchLowStockAlerts_warehouses c ws acc' s2 = (Inr out, s')"
    by (auto split: prod.splits sum.splits)
  then show ?case
    using items_stock_below_threshold [of c w inventories acc s1 acc' s2] Cons.prems(2)
      Cons.IH [of acc' s2] by blast
qed

lemma fetch_stock_below_threshold:
  assumes "fst (fetchLowStockAlerts c companyId s) = Inr out" and "a \<in> set out"
  shows "current_stock a < threshold a"
proof -
  from assms(1) obtain ws s1 s' where
    "fetchLowStockAlerts_warehouses c ws [] s1 = (Inr out, s')"
    by (auto simp: fetchLowStockAlerts_def split: prod.splits sum.splits)
       (metis prod.collapse)
  then show ?thesis
    using warehouses_stock_below_threshold [of c ws "[]" s1 out s'] assms(2) by simp
qed

subsection \<open>The sample data evaluated\<close>

lemma readonly_store_collaborators: "readonly (store_collaborators cfg)"
  by (simp add: readonly_def store_collaborators_def Warehouse_findAll_where_def
        Inventory_findAll_where_def sales_in_window_def average_daily_sales_def supplier_for_def)

lemmas store_defs = store_collaborators_def Warehouse_findAll_where_def
  Inventory_findAll_where_def threshold_for_def qualifying_sales_def sales_in_window_def
  average_daily_sales_def supplier_for_def thirty_days_def

lemmas demo_defs = demo_def demo_config_def demo_store_def wh_main_def wh_overflow_def
  wh_depot_def widget_a_def row_widget_e_def row_widget_a_def row_widget_b_def row_kit_c_def
  row_kit_d_def row_widget_a_depot_def supplier_corp_def acme_def

lemmas demo_alerts_defs = demo_alerts_def alert_widget_e_def alert_widget_b_def
  alert_kit_d_def

lemmas edge_defs = edge_def edge_config_def edge_store_def wh_annex_def row_widget_f_def
  row_widget_g_def

lemma readonly_demo: "readonly demo"
  by (simp add: demo_def readonly_store_collaborators)

lemma readonly_supplier_lookup_down: "readonly supplier_lookup_down"
  by (simp add: readonly_def supplier_lookup_down_def demo_def store_defs)

lemma readonly_sales_lookup_down: "readonly sales_lookup_down"
  by (simp add: readonly_def sales_lookup_down_def demo_def store_defs)

lemma fetch_demo: "fetchLowStockAlerts demo 7 demo_store = (Inr demo_alerts, demo_store)"
  by (simp add: fetchLowStockAlerts_def store_defs demo_defs demo_alerts_defs Let_def
        sample_doubles)

lemma readonly_edge: "readonly edge"
  by (simp add: edge_def readonly_store_collaborators)

lemma fetch_edge:
  "fetchLowStockAlerts edge 9 edge_store = (Inr [alert_widget_f, alert_widget_g], edge_store)"
  by (simp add: fetchLowStockAlerts_def store_defs edge_defs alert_widget_f_def
        alert_widget_g_def Let_def sample_doubles)

lemma fetch_demo_unknown: "fetchLowStockAlerts demo 99 demo_store = (Inr [], demo_store)"
  by (simp add: fetchLowStockAlerts_def store_defs demo_defs)

lemma fetch_supplier_lookup_down:
  "fetchLowStockAlerts supplier_lookup_down 7 demo_store = (Inl DependencyFailure, demo_store)"
  by (simp add: fetchLowStockAlerts_def supplier_lookup_down_def store_defs demo_defs Let_def)

lemma fetch_sales_lookup_down:
  "fetchLowStockAlerts sales_lookup_down 7 demo_store = (Inl DependencyFailure, demo_store)"
  by (simp add: fetchLowStockAlerts_def sales_lookup_down_def store_defs demo_defs Let_def)

lemma company_warehouses_demo: "company_warehouses demo demo_store 7 = [wh_main, wh_overflow]"
  by (simp add: company_warehouses_def store_defs demo_defs)

lemma inventory_of_demo_main:
  "inventory_of demo demo_store wh_main = [row_widget_e, row_widget_a, row_widget_b, row_kit_c]"
  by (simp add: inventory_of_def store_defs demo_defs)

lemma inventory_of_demo_overflow: "inventory_of demo demo_store wh_overflow = [row_kit_d]"
  by (simp add: inventory_of_def store_defs demo_defs)

section \<open>The controller's response\<close>

text \<open>
  C9. Whenever the request succeeds, the field \<open>total_alerts\<close> of the response is the
  number of alerts in its array \<open>alerts\<close>.
\<close>

theorem total_alerts_counts_alerts:
  "fst (getLowStockAlerts c companyId s) = Inr r \<Longrightarrow> total_alerts r = length (alerts r)"
  by (auto simp: getLowStockAlerts_def split: prod.splits sum.splits)

text \<open>C9 on the sample data: company 7 is answered three alerts and the count 3.\<close>

theorem total_alerts_counts_alerts_witness:
  "fst (getLowStockAlerts demo 7 demo_store) = Inr \<lparr>alerts = demo_alerts, total_alerts = 3\<rparr> \<and>
   total_alerts \<lparr>alerts = demo_alerts, total_alerts = 3\<rparr> = length demo_alerts"
proof -
  have h: "fst (getLowStockAlerts demo 7 demo_store) =
      Inr \<lparr>alerts = demo_alerts, total_alerts = 3\<rparr>"
    by (simp add: getLowStockAlerts_def fetch_demo demo_alerts_def)
  show ?thesis
    using h total_alerts_counts_alerts [OF h] by simp
qed

section \<open>The request changes nothing\<close>

text \<open>
  C10. The service is read-only. It reaches the storage only through its collaborators,
  so when these are read-only the storage after the request is the storage before it,
  whether the request succeeds or rejects; the same holds for the controller.
\<close>

theorem fetchLowStockAlerts_read_only:
  "readonly c \<Longrightarrow>
   snd (fetchLowStockAlerts c companyId s) = s \<and> snd (getLowStockAlerts c companyId s) = s"
  using fetch_frame [of c companyId s]
  by (auto simp: getLowStockAlerts_def split: prod.splits sum.splits)

text \<open>
  C10 on the sample data: a request that succeeds and one that rejects both leave the
  tables as they were.
\<close>

theorem fetchLowStockAlerts_read_only_witness:
  "readonly demo \<and>
   snd (fetchLowStockAlerts demo 7 demo_store) = demo_store \<and>
   snd (getLowStockAlerts demo 7 demo_store) = demo_store \<and>
   readonly supplier_lookup_down \<and>
   isl (fst (fetchLowStockAlerts supplier_lookup_down 7 demo_store)) \<and>
   snd (fetchLowStockAlerts supplier_lookup_down 7 demo_store) = demo_store"
  using readonly_demo readonly_supplier_lookup_down
    fetchLowStockAlerts_read_only [OF readonly_demo, of 7 demo_store]
    fetchLowStockAlerts_read_only [OF readonly_supplier_lookup_down, of 7 demo_store]
  by (simp add: fetch_supplier_lookup_down)

section \<open>Unknown companies and companies without warehouses\<close>

text \<open>
  C1, as the specification states it, fails: the service never looks the company up, and
  a company id that is in no table is answered like a company without a warehouse, with
  an empty list of alerts and not with \<open>NotFoundError\<close>.
\<close>

theorem unknown_company_is_answered_empty:
  "99 \<notin> set (tbl_companies demo_store) \<and>
   fst (getLowStockAlerts demo 99 demo_store) = Inr \<lparr>alerts = [], total_alerts = 0\<rparr>"
  by (simp add: getLowStockAlerts_def fetch_demo_unknown) (simp add: demo_store_def)

text \<open>
  C1, amended. The outcome follows the warehouse query alone: when it returns no
  warehouse, for whatever company id, the response is \<open>{alerts: [], total_alerts: 0}\<close>;
  when it rejects, the request rejects with the same error and carries no alert.
\<close>

theorem getLowStockAlerts_follows_warehouse_query:
  "(fst (Warehouse_findAll c companyId s) = Inr [] \<longrightarrow>
      fst (getLowStockAlerts c companyId s) = Inr \<lparr>alerts = [], total_alerts = 0\<rparr>) \<and>
   (fst (Warehouse_findAll c companyId s) = Inl e \<longrightarrow>
      fst (getLowStockAlerts c companyId s) = Inl e)"
  by (cases "Warehouse_findAll c companyId s")
     (simp add: getLowStockAlerts_def fetchLowStockAlerts_def)

text \<open>
  C1 amended, on the sample data: the unknown company 99 has no warehouse and is answered
  the empty response; with a warehouse query that rejects, the request rejects alike.
\<close>

theorem getLowStockAlerts_follows_warehouse_query_witness:
  "fst (Warehouse_findAll demo 99 demo_store) = Inr [] \<and>
   fst (getLowStockAlerts demo 99 demo_store) = Inr \<lparr>alerts = [], total_alerts = 0\<rparr> \<and>
   fst (Warehouse_findAll warehouse_lookup_down 7 demo_store) = Inl NotFoundError \<and>
   fst (getLowStockAlerts warehouse_lookup_down 7 demo_store) = Inl NotFoundError"
proof -
  have h1: "fst (Warehouse_findAll demo 99 demo_store) = Inr []"
    by (simp add: store_defs demo_defs)
  have h2: "fst (Warehouse_findAll warehouse_lookup_down 7 demo_store) = Inl NotFoundError"
    by (simp add: warehouse_lookup_down_def)
  show ?thesis
    using h1 h2
      getLowStockAlerts_follows_warehouse_query [of demo 99 demo_store]
      getLowStockAlerts_follows_warehouse_query [of warehouse_lookup_down 7 demo_store NotFoundError]
    by simp
qed

section \<open>Lookups that reject\<close>

text \<open>
  C2, as the specification states it, fails: the service catches nothing. With the
  warehouses of company 7 resolved, a supplier lookup that rejects for one product, or a
  sales-activity lookup that rejects for one product, rejects the whole request; the
  alerts of the other pairs are lost with it.
\<close>

theorem lookup_failure_aborts_request:
  "fst (Warehouse_findAll supplier_lookup_down 7 demo_store) = Inr [wh_main, wh_overflow] \<and>
   fst (fetchLowStockAlerts supplier_lookup_down 7 demo_store) = Inl DependencyFailure \<and>
   fst (Warehouse_findAll sales_lookup_down 7 demo_store) = Inr [wh_main, wh_overflow] \<and>
   fst (fetchLowStockAlerts sales_lookup_down 7 demo_store) = Inl DependencyFailure"
  by (simp add: fetch_supplier_lookup_down fetch_sales_lookup_down)
     (simp add: supplier_lookup_down_def sales_lookup_down_def store_defs demo_defs)

text \<open>
  C2, amended. With read-only collaborators the request rejects exactly when a lookup that
  it reaches rejects: the warehouse query, the inventory query of one of the warehouses,
  or, for a row below its threshold, the sales-activity lookup or (when that answers
  true) the average-sales or the supplier lookup. No lookup failure is absorbed.
\<close>

theorem request_rejects_iff_lookup_rejects:
  "readonly c \<Longrightarrow>
   isl (fst (fetchLowStockAlerts c companyId s)) \<longleftrightarrow> request_fails c companyId s"
  by (rule fetch_fails_iff)

text \<open>
  C2 amended, on the sample data: with the supplier lookup down for product 24 the
  request rejects; with every lookup up it does not.
\<close>

theorem request_rejects_iff_lookup_rejects_witness:
  "readonly supplier_lookup_down \<and>
   isl (fst (fetchLowStockAlerts supplier_lookup_down 7 demo_store)) \<and>
   request_fails supplier_lookup_down 7 demo_store \<and>
   readonly demo \<and>
   \<not> isl (fst (fetchLowStockAlerts demo 7 demo_store)) \<and>
   \<not> request_fails demo 7 demo_store"
  using readonly_supplier_lookup_down readonly_demo
    request_rejects_iff_lookup_rejects [OF readonly_supplier_lookup_down, of 7 demo_store]
    request_rejects_iff_lookup_rejects [OF readonly_demo, of 7 demo_store]
  by (simp add: fetch_supplier_lookup_down fetch_demo)

section \<open>Which pairs are alerted\<close>

lemma expected_alert_same_gates:
  "expected_alert c s w item = expected_alert c s w' item' \<Longrightarrow>
   passes_gates c s w item = passes_gates c s w' item'"
  by (simp add: expected_alert_def passes_gates_def)

text \<open>
  C3. For a request that succeeds (collaborators read-only): of an inventory row of a
  warehouse of the requested company, the alert is in the output if and only if the row
  passes both gates (stock strictly below the threshold, sales activity reported); and
  every alert of the output is the alert of such a row, so nothing comes from another
  company's warehouse or from an earlier request.
\<close>

theorem alert_iff_gates:
  assumes "readonly c" and "fst (fetchLowStockAlerts c companyId s) = Inr out"
  shows "(w \<in> set (company_warehouses c s companyId) \<and> item \<in> set (inventory_of c s w) \<longrightarrow>
            (expected_alert c s w item \<in> set out \<longleftrightarrow> passes_gates c s w item)) \<and>
         (a \<in> set out \<longrightarrow>
            (\<exists>w'\<in>set (company_warehouses c s companyId). \<exists>item'\<in>set (inventory_of c s w').
               passes_gates c s w' item' \<and> a = expected_alert c s w' item'))"
proof (intro conjI impI)
  assume "a \<in> set out"
  then show "\<exists>w'\<in>set (company_warehouses c s companyId). \<exists>item'\<in>set (inventory_of c s w').
      passes_gates c s w' item' \<and> a = expected_alert c s w' item'"
    using fetch_success_mem [OF assms] by simp
next
  assume mem: "w \<in> set (company_warehouses c s companyId) \<and> item \<in> set (inventory_of c s w)"
  show "expected_alert c s w item \<in> set out \<longleftrightarrow> passes_gates c s w item"
  proof
    assume "expected_alert c s w item \<in> set out"
    then obtain w' item' where "passes_gates c s w' item'"
      and "expected_alert c s w item = expected_alert c s w' item'"
      using fetch_success_mem [OF assms] by blast
    then show "passes_gates c s w item"
      using expected_alert_same_gates [of c s w item w' item'] by simp
  next
    assume "passes_gates c s w item"
    then show "expected_alert c s w item \<in> set out"
      using mem fetch_success_mem [OF assms] by blast
  qed
qed

text \<open>
  C3 on the sample data, for company 7: Widget B in the main warehouse passes the gates
  and is alerted; Widget A there, with stock at its threshold, is not; and the alert of
  Kit D comes from a row of a warehouse of company 7.
\<close>

theorem alert_iff_gates_witness:
  "readonly demo \<and>
   fst (fetchLowStockAlerts demo 7 demo_store) = Inr demo_alerts \<and>
   wh_main \<in> set (company_warehouses demo demo_store 7) \<and>
   row_widget_b \<in> set (inventory_of demo demo_store wh_main) \<and>
   passes_gates demo demo_store wh_main row_widget_b \<and>
   expected_alert demo demo_store wh_main row_widget_b \<in> set demo_alerts \<and>
   row_widget_a \<in> set (inventory_of demo demo_store wh_main) \<and>
   \<not> passes_gates demo demo_store wh_main row_widget_a \<and>
   expected_alert demo demo_store wh_main row_widget_a \<notin> set demo_alerts \<and>
   alert_kit_d \<in> set demo_alerts \<and>
   (\<exists>w'\<in>set (company_warehouses demo demo_store 7). \<exists>item'\<in>set (inventory_of demo demo_store w').
      passes_gates demo demo_store w' item' \<and> alert_kit_d = expected_alert demo demo_store w' item')"
proof -
  have ok: "fst (fetchLowStockAlerts demo 7 demo_store) = Inr demo_alerts"
    by (simp add: fetch_demo)
  have b: "passes_gates demo demo_store wh_main row_widget_b"
    by (simp add: passes_gates_def store_defs demo_defs)
  have a: "\<not> passes_gates demo demo_store wh_main row_widget_a"
    by (simp add: passes_gates_def store_defs demo_defs)
  have d: "alert_kit_d \<in> set demo_alerts"
    by (simp add: demo_alerts_def)
  show ?thesis
    using readonly_demo ok a b d
      alert_iff_gates [OF readonly_demo ok, of wh_main row_widget_b alert_kit_d]
      alert_iff_gates [OF readonly_demo ok, of wh_main row_widget_a alert_kit_d]
    by (simp add: company_warehouses_demo inventory_of_demo_main)
qed

text \<open>
  C4. The stock gate is strict. Every alert of a successful request has its stock strictly
  below its threshold, so a row whose quantity equals the threshold of its product's type
  has no alert in the output.
\<close>

theorem no_alert_at_threshold:
  assumes "fst (fetchLowStockAlerts c companyId s) = Inr out"
  shows "(a \<in> set out \<longrightarrow> current_stock a < threshold a) \<and>
         (quantity item = getThresholdByProductType c (product_type (Product item)) \<longrightarrow>
            expected_alert c s' w item \<notin> set out)"
proof (intro conjI impI)
  assume "a \<in> set out"
  then show "current_stock a < threshold a"
    using fetch_stock_below_threshold [OF assms] by simp
next
  assume eq: "quantity item = getThresholdByProductType c (product_type (Product item))"
  show "expected_alert c s' w item \<notin> set out"
  proof
    assume "expected_alert c s' w item \<in> set out"
    then have "current_stock (expected_alert c s' w item) < threshold (expected_alert c s' w item)"
      using fetch_stock_below_threshold [OF assms] by simp
    then show False
      using eq by (simp add: expected_alert_def)
  qed
qed

text \<open>
  C4 on the sample data: Widget A in the main warehouse has stock 20, the threshold of a
  simple product, and recent sales; it is not alerted, while Widget B with stock 5 is.
\<close>

theorem no_alert_at_threshold_witness:
  "fst (fetchLowStockAlerts demo 7 demo_store) = Inr demo_alerts \<and>
   quantity row_widget_a = 20 \<and>
   getThresholdByProductType demo (product_type (Product row_widget_a)) = 20 \<and>
   fst (hasRecentSalesActivity demo (prod_id (Product row_widget_a)) (wh_id wh_main) demo_store) =
     Inr True \<and>
   expected_alert demo demo_store wh_main row_widget_a \<notin> set demo_alerts \<and>
   alert_widget_b \<in> set demo_alerts \<and>
   current_stock alert_widget_b < threshold alert_widget_b"
proof -
  have ok: "fst (fetchLowStockAlerts demo 7 demo_store) = Inr demo_alerts"
    by (simp add: fetch_demo)
  have q: "quantity row_widget_a = 20"
    and t: "getThresholdByProductType demo (product_type (Product row_widget_a)) = 20"
    and r: "fst (hasRecentSalesActivity demo (prod_id (Product row_widget_a)) (wh_id wh_main)
              demo_store) = Inr True"
    by (simp_all add: store_defs demo_defs)
  have b: "alert_widget_b \<in> set demo_alerts"
    by (simp add: demo_alerts_def)
  show ?thesis
    using ok q t r b
      no_alert_at_threshold [OF ok, of alert_widget_b row_widget_a demo_store wh_main]
    by simp
qed

text \<open>
  C5. The recency gate. When the sales-activity lookup of a product in a warehouse
  answers false, a successful request (collaborators read-only) has no alert for that
  product in that warehouse, whatever the stock.
\<close>

theorem no_alert_without_recent_sales:
  assumes "readonly c" and "fst (fetchLowStockAlerts c companyId s) = Inr out"
    and "fst (hasRecentSalesActivity c pid wid s) = Inr False"
  shows "\<not> (\<exists>a\<in>set out. product_id a = pid \<and> warehouse_id a = wid)"
proof
  assume "\<exists>a\<in>set out. product_id a = pid \<and> warehouse_id a = wid"
  then obtain a where "a \<in> set out" and ids: "product_id a = pid" "warehouse_id a = wid"
    by blast
  then obtain w item where "passes_gates c s w item" and "a = expected_alert c s w item"
    using fetch_success_mem [OF assms(1,2)] by blast
  then have "fst (hasRecentSalesActivity c pid wid s) = Inr True"
    using ids by (simp add: passes_gates_def expected_alert_def)
  then show False
    using assms(3) by simp
qed

text \<open>
  C5 on the sample data: Kit C in the main warehouse has stock 0 and its only sale is older
  than the window; company 7 gets no alert for it.
\<close>

theorem no_alert_without_recent_sales_witness:
  "readonly demo \<and>
   fst (fetchLowStockAlerts demo 7 demo_store) = Inr demo_alerts \<and>
   row_kit_c \<in> set (inventory_of demo demo_store wh_main) \<and>
   quantity row_kit_c = 0 \<and>
   fst (hasRecentSalesActivity demo 23 11 demo_store) = Inr False \<and>
   \<not> (\<exists>a\<in>set demo_alerts. product_id a = 23 \<and> warehouse_id a = 11)"
proof -
  have ok: "fst (fetchLowStockAlerts demo 7 demo_store) = Inr demo_alerts"
    by (simp add: fetch_demo)
  have r: "fst (hasRecentSalesActivity demo 23 11 demo_store) = Inr False"
    by (simp add: store_defs demo_defs)
  have q: "quantity row_kit_c = 0"
    by (simp add: row_kit_c_def)
  show ?thesis
    using readonly_demo ok r q no_alert_without_recent_sales [OF readonly_demo ok r]
    by (simp add: inventory_of_demo_main)
qed

section \<open>What an alert carries\<close>

lemma success_lookups_ok:
  assumes ro: "readonly c" and ok: "fst (fetchLowStockAlerts c companyId s) = Inr out"
    and w: "w \<in> set (company_warehouses c s companyId)"
    and item: "item \<in> set (inventory_of c s w)"
    and gates: "passes_gates c s w item"
  shows "\<exists>avg sp.
      fst (getAverageDailySales c (prod_id (Product item)) (wh_id w) s) = Inr avg \<and>
      fst (getSupplierForProduct c (prod_id (Product item)) s) = Inr sp"
proof -
  have "\<not> request_fails c companyId s"
    using fetch_fails_iff [OF ro, of companyId s] ok by simp
  then have "\<not> warehouse_fails c s w"
    using w by (auto simp: request_fails_def company_warehouses_def split: sum.splits)
  then have "\<not> lookup_fails c s w item"
    using item by (auto simp: warehouse_fails_def inventory_of_def split: sum.splits)
  then have "\<not> isl (fst (getAverageDailySales c (prod_id (Product item)) (wh_id w) s)) \<and>
      \<not> isl (fst (getSupplierForProduct c (prod_id (Product item)) s))"
    using gates by (simp add: lookup_fails_def passes_gates_def)
  then show ?thesis
    by (metis sum.collapse(2))
qed

text \<open>
  C6, as the specification states it, fails. In warehouse 14, Widget F has stock 23 and 23
  sold in the window: the average is the double nearest to 23/30, which lies above 23/30,
  the quotient in doubles is 29.999999999999996, and the alert says 29 days where
  \<open>floor (23 / (23 / 30))\<close> is 30. Widget G has stock -3 and an average of 1: the alert says
  -3 days, a negative number, since nothing clamps the result.
\<close>

theorem days_until_stockout_rounded_and_unclamped:
  "fst (fetchLowStockAlerts edge 9 edge_store) = Inr [alert_widget_f, alert_widget_g] \<and>
   quantity row_widget_f = 23 \<and>
   fst (getAverageDailySales edge 26 14 edge_store) = Inr (round_double (23 / 30)) \<and>
   23 / 30 < round_double (23 / 30) \<and>
   days_until_stockout alert_widget_f = Some (Finite 29) \<and>
   \<lfloor>23 / (23 / 30 :: rat)\<rfloor> = 30 \<and>
   quantity row_widget_g = - 3 \<and>
   fst (getAverageDailySales edge 27 14 edge_store) = Inr 1 \<and>
   days_until_stockout alert_widget_g = Some (Finite (- 3))"
proof -
  have f: "fst (getAverageDailySales edge 26 14 edge_store) = Inr (round_double (23 / 30))"
    by (simp add: store_defs edge_defs)
  have g: "fst (getAverageDailySales edge 27 14 edge_store) = Inr 1"
    by (simp add: store_defs edge_defs) (simp add: number_defs)
  have above: "23 / 30 < round_double (23 / 30)"
    by (simp add: number_defs)
  have exact: "\<lfloor>23 / (23 / 30 :: rat)\<rfloor> = 30"
    by simp
  show ?thesis
    using f g above exact
    by (simp add: fetch_edge row_widget_f_def row_widget_g_def alert_widget_f_def
          alert_widget_g_def)
qed

text \<open>
  C6, amended. Every alert of a successful request (collaborators read-only) was given an
  average of daily sales by the lookup for its product and warehouse. Its
  \<open>days_until_stockout\<close> is \<open>null\<close> exactly when that average is not positive (for an
  average that is not negative: exactly when it is zero), and no division takes place
  then. Otherwise it is \<^verbatim>\<open>Math.floor\<close> of the quotient in doubles of the stock by the
  average. When the exact quotient is below \<open>2^53\<close> in magnitude this is an integer, the
  floor of the exact quotient or that floor plus one, and it is not negative when the
  stock is not negative.
\<close>

theorem days_until_stockout_value:
  assumes "readonly c" and "fst (fetchLowStockAlerts c companyId s) = Inr out"
    and "a \<in> set out"
  shows "\<exists>avg. fst (getAverageDailySales c (product_id a) (warehouse_id a) s) = Inr avg \<and>
           (days_until_stockout a = None \<longleftrightarrow> avg \<le> 0) \<and>
           (0 < avg \<longrightarrow>
              days_until_stockout a =
                Some (Math_floor (double_of (of_int (current_stock a) / avg))) \<and>
              (\<bar>of_int (current_stock a) / avg\<bar> < 2 ^ 53 \<longrightarrow>
                 (\<exists>n. days_until_stockout a = Some (Finite (of_int n)) \<and>
                      \<lfloor>of_int (current_stock a) / avg\<rfloor> \<le> n \<and>
                      n \<le> \<lfloor>of_int (current_stock a) / avg\<rfloor> + 1 \<and>
                      (0 \<le> current_stock a \<longrightarrow> 0 \<le> n))))"
proof -
  obtain w item where w: "w \<in> set (company_warehouses c s companyId)"
    and item: "item \<in> set (inventory_of c s w)"
    and gates: "passes_gates c s w item" and a: "a = expected_alert c s w item"
    using fetch_success_mem [OF assms(1,2)] assms(3) by blast
  obtain avg where
    avg: "fst (getAverageDailySales c (prod_id (Product item)) (wh_id w) s) = Inr avg"
    using success_lookups_ok [OF assms(1,2) w item gates] by blast
  define x where "x = rat_of_int (current_stock a) / avg"
  have ids: "product_id a = prod_id (Product item)" "warehouse_id a = wh_id w"
    "current_stock a = quantity item"
    by (simp_all add: a expected_alert_def)
  have days: "days_until_stockout a = (if 0 < avg then Some (Math_floor (double_of x)) else None)"
    by (simp add: a expected_alert_def avg x_def)
  have null: "days_until_stockout a = None \<longleftrightarrow> avg \<le> 0"
    by (auto simp: days)
  have bounded: "\<exists>n. days_until_stockout a = Some (Finite (of_int n)) \<and>
      \<lfloor>x\<rfloor> \<le> n \<and> n \<le> \<lfloor>x\<rfloor> + 1 \<and> (0 \<le> current_stock a \<longrightarrow> 0 \<le> n)"
    if pos: "0 < avg" and small: "\<bar>x\<bar> < 2 ^ 53"
  proof -
    have fl: "double_of x = Finite (round_double x)"
      and lo: "\<lfloor>x\<rfloor> \<le> \<lfloor>round_double x\<rfloor>" and hi: "\<lfloor>round_double x\<rfloor> \<le> \<lfloor>x\<rfloor> + 1"
      using floor_round_double [OF small] by simp_all
    have nn: "0 \<le> \<lfloor>round_double x\<rfloor>" if "0 \<le> current_stock a"
    proof -
      have "0 \<le> x"
        using that pos by (simp add: x_def)
      then have "0 \<le> \<lfloor>x\<rfloor>" by simp
      with lo show ?thesis by (rule order_trans [rotated])
    qed
    show ?thesis
      using lo hi pos nn by (intro exI [of _ "\<lfloor>round_double x\<rfloor>"]) (simp add: days fl)
  qed
  show ?thesis
    using avg null bounded days unfolding ids(1,2) x_def by (intro exI [of _ avg]) auto
qed

text \<open>
  C6 amended, on the sample data: Widget B in the main warehouse has stock 5 and ten sold
  in the window; the average is the double nearest to 10/30 and the alert says 15 days.
\<close>

theorem days_until_stockout_value_witness:
  "readonly demo \<and>
   fst (fetchLowStockAlerts demo 7 demo_store) = Inr demo_alerts \<and>
   alert_widget_b \<in> set demo_alerts \<and>
   fst (getAverageDailySales demo (product_id alert_widget_b) (warehouse_id alert_widget_b)
          demo_store) = Inr (round_double (10 / 30)) \<and>
   0 < round_double (10 / 30) \<and>
   current_stock alert_widget_b = 5 \<and>
   \<bar>5 / round_double (10 / 30)\<bar> < 2 ^ 53 \<and>
   days_until_stockout alert_widget_b =
     Some (Math_floor (double_of (5 / round_double (10 / 30)))) \<and>
   Math_floor (double_of (5 / round_double (10 / 30))) = Finite 15 \<and>
   \<lfloor>5 / round_double (10 / 30)\<rfloor> = 15"
proof -
  have ok: "fst (fetchLowStockAlerts demo 7 demo_store) = Inr demo_alerts"
    by (simp add: fetch_demo)
  have b: "alert_widget_b \<in> set demo_alerts"
    by (simp add: demo_alerts_def)
  have avg: "fst (getAverageDailySales demo (product_id alert_widget_b)
      (warehouse_id alert_widget_b) demo_store) = Inr (round_double (10 / 30))"
    by (simp add: alert_widget_b_def store_defs demo_defs)
  have pos: "0 < round_double (10 / 30)"
    and small: "\<bar>5 / round_double (10 / 30)\<bar> < 2 ^ 53"
    and v: "Math_floor (double_of (5 / round_double (10 / 30))) = Finite 15"
    and f: "\<lfloor>5 / round_double (10 / 30)\<rfloor> = 15"
    by (simp_all add: number_defs)
  have q: "current_stock alert_widget_b = 5"
    by (simp add: alert_widget_b_def)
  from days_until_stockout_value [OF readonly_demo ok b]
  obtain avg' where
    A: "fst (getAverageDailySales demo (product_id alert_widget_b)
          (warehouse_id alert_widget_b) demo_store) = Inr avg'" and
    B: "0 < avg' \<longrightarrow>
          days_until_stockout alert_widget_b =
            Some (Math_floor (double_of (of_int (current_stock alert_widget_b) / avg')))"
    by blast
  have e: "avg' = round_double (10 / 30)"
    using A unfolding avg by (simp only: sum.inject)
  have d: "days_until_stockout alert_widget_b =
      Some (Math_floor (double_of (5 / round_double (10 / 30))))"
    using B pos unfolding e q by simp
  show ?thesis
    using readonly_demo ok b avg pos small v f q d by simp
qed

text \<open>
  C7. A row of a warehouse of the company passes both gates, and the supplier lookup for
  its product answers \<open>null\<close>. Then, unless some lookup of the request rejects (a
  \<open>null\<close> supplier is an answer, not a rejection), the request succeeds and the alert of
  the row is in its output, with the field \<open>supplier\<close> present and \<open>null\<close>.
\<close>

theorem alert_without_supplier:
  assumes "readonly c" and "\<not> request_fails c companyId s"
    and "w \<in> set (company_warehouses c s companyId)"
    and "item \<in> set (inventory_of c s w)"
    and "passes_gates c s w item"
    and "fst (getSupplierForProduct c (prod_id (Product item)) s) = Inr None"
  shows "\<exists>out. fst (fetchLowStockAlerts c companyId s) = Inr out \<and>
           expected_alert c s w item \<in> set out \<and>
           supplier (expected_alert c s w item) = None"
proof -
  have "\<not> isl (fst (fetchLowStockAlerts c companyId s))"
    using fetch_fails_iff [OF assms(1), of companyId s] assms(2) by simp
  then obtain out where ok: "fst (fetchLowStockAlerts c companyId s) = Inr out"
    by (metis sum.collapse(2))
  have "expected_alert c s w item \<in> set out"
    using fetch_success_mem [OF assms(1) ok] assms(3,4,5) by blast
  moreover have "supplier (expected_alert c s w item) = None"
    using assms(6) by (simp add: expected_alert_def)
  ultimately show ?thesis
    using ok by blast
qed

text \<open>
  C7 on the sample data: Kit D in the overflow warehouse has no supplier; company 7 is
  alerted of it with \<open>supplier = None\<close>.
\<close>

theorem alert_without_supplier_witness:
  "readonly demo \<and>
   \<not> request_fails demo 7 demo_store \<and>
   wh_overflow \<in> set (company_warehouses demo demo_store 7) \<and>
   row_kit_d \<in> set (inventory_of demo demo_store wh_overflow) \<and>
   passes_gates demo demo_store wh_overflow row_kit_d \<and>
   fst (getSupplierForProduct demo (prod_id (Product row_kit_d)) demo_store) = Inr None \<and>
   fst (fetchLowStockAlerts demo 7 demo_store) = Inr demo_alerts \<and>
   expected_alert demo demo_store wh_overflow row_kit_d \<in> set demo_alerts \<and>
   expected_alert demo demo_store wh_overflow row_kit_d = alert_kit_d \<and>
   supplier alert_kit_d = None"
proof -
  have nf: "\<not> request_fails demo 7 demo_store"
    using fetch_fails_iff [OF readonly_demo, of 7 demo_store] by (simp add: fetch_demo)
  have w: "wh_overflow \<in> set (company_warehouses demo demo_store 7)"
    by (simp add: company_warehouses_demo)
  have item: "row_kit_d \<in> set (inventory_of demo demo_store wh_overflow)"
    by (simp add: inventory_of_demo_overflow)
  have gates: "passes_gates demo demo_store wh_overflow row_kit_d"
    by (simp add: passes_gates_def store_defs demo_defs)
  have sp: "fst (getSupplierForProduct demo (prod_id (Product row_kit_d)) demo_store) = Inr None"
    by (simp add: store_defs demo_defs)
  have e: "expected_alert demo demo_store wh_overflow row_kit_d = alert_kit_d"
    by (simp add: expected_alert_def alert_kit_d_def store_defs demo_defs sample_doubles)
  have ok: "fst (fetchLowStockAlerts demo 7 demo_store) = Inr demo_alerts"
    by (simp add: fetch_demo)
  show ?thesis
    using readonly_demo nf w item gates sp ok
      alert_without_supplier [OF readonly_demo nf w item gates sp]
    by (simp add: e)
qed

section \<open>Order and repetition\<close>

text \<open>
  C8, as the specification states it, fails in its last part: the service sorts nothing.
  In the main warehouse the inventory query returns Widget E (product 25) before
  Widget B (product 22), and the alerts come in that order, not by ascending product id.
\<close>

theorem alerts_not_sorted_by_product_id:
  "fst (Inventory_findAll demo (wh_id wh_main) demo_store) =
     Inr [row_widget_e, row_widget_a, row_widget_b, row_kit_c] \<and>
   fst (fetchLowStockAlerts demo 7 demo_store) = Inr demo_alerts \<and>
   map warehouse_id demo_alerts = [11, 11, 12] \<and>
   map product_id demo_alerts = [25, 22, 24] \<and>
   \<not> sorted (map product_id (take 2 demo_alerts))"
  by (simp add: fetch_demo)
     (simp add: store_defs demo_defs demo_alerts_defs)

lemma expected_alert_same_answers:
  "same_answers c s c' s' \<Longrightarrow> expected_alert c s w item = expected_alert c' s' w item"
  by (simp add: same_answers_def expected_alert_def)

lemma items_same_answers:
  assumes ro: "readonly c" and ro': "readonly c'" and same: "same_answers c s c' s'"
  shows "fst (fetchLowStockAlerts_items c w items acc s) =
         fst (fetchLowStockAlerts_items c' w items acc s')"
proof (induction items arbitrary: acc)
  case Nil
  show ?case by simp
next
  case (Cons item items)
  have thr: "getThresholdByProductType c (product_type (Product item)) =
      getThresholdByProductType c' (product_type (Product item))"
    and rec: "fst (hasRecentSalesActivity c (prod_id (Product item)) (wh_id w) s) =
      fst (hasRecentSalesActivity c' (prod_id (Product item)) (wh_id w) s')"
    and avg: "fst (getAverageDailySales c (prod_id (Product item)) (wh_id w) s) =
      fst (getAverageDailySales c' (prod_id (Product item)) (wh_id w) s')"
    and sp: "fst (getSupplierForProduct c (prod_id (Product item)) s) =
      fst (getSupplierForProduct c' (prod_id (Product item)) s')"
    using same by (simp_all add: same_answers_def)
  show ?case
    using Cons.IH
    by (simp add: items_Cons_readonly [OF ro] items_Cons_readonly [OF ro'] thr rec avg sp
          expected_alert_same_answers [OF same]
          del: fetchLowStockAlerts_items.simps split: sum.splits)
qed

lemma warehouses_same_answers:
  assumes ro: "readonly c" and ro': "readonly c'" and same: "same_answers c s c' s'"
  shows "fst (fetchLowStockAlerts_warehouses c ws acc s) =
         fst (fetchLowStockAlerts_warehouses c' ws acc s')"
proof (induction ws arbitrary: acc)
  case Nil
  show ?case by simp
next
  case (Cons w ws)
  have inv: "fst (Inventory_findAll c (wh_id w) s) = fst (Inventory_findAll c' (wh_id w) s')"
    using same by (simp add: same_answers_def)
  show ?case
    using Cons.IH
    by (simp add: warehouses_Cons_readonly [OF ro] warehouses_Cons_readonly [OF ro'] inv
          items_same_answers [OF ro ro' same]
          del: fetchLowStockAlerts_warehouses.simps split: sum.splits)
qed

lemma fetch_same_answers:
  assumes ro: "readonly c" and ro': "readonly c'" and same: "same_answers c s c' s'"
  shows "fst (fetchLowStockAlerts c companyId s) = fst (fetchLowStockAlerts c' companyId s')"
proof -
  have "fst (Warehouse_findAll c companyId s) = fst (Warehouse_findAll c' companyId s')"
    using same by (simp add: same_answers_def)
  then show ?thesis
    by (simp add: fetch_readonly [OF ro] fetch_readonly [OF ro']
          warehouses_same_answers [OF ro ro' same] split: sum.splits)
qed

text \<open>
  C8, amended. The outcome of a request is determined by the answers of the
  collaborators: two requests for the same company, with read-only collaborators that
  answer every lookup alike, have the same outcome, the supplier of each alert included
  (it is the one the supplier lookup answered). The service puts the alerts in no order
  of its own: those of a successful request are grouped by warehouse in the order the
  warehouse query returned the warehouses, and within a warehouse stand in the order the
  inventory query returned its rows.
\<close>

theorem alerts_in_lookup_order:
  assumes "readonly c"
  shows "(readonly c' \<and> same_answers c s c' s' \<longrightarrow>
            fst (fetchLowStockAlerts c' companyId s') = fst (fetchLowStockAlerts c companyId s)) \<and>
         (fst (fetchLowStockAlerts c companyId s) = Inr out \<longrightarrow>
            out = concat (map (warehouse_alerts c s) (company_warehouses c s companyId)))"
  using fetch_same_answers [OF assms, of c' s s' companyId]
    fetch_success [OF assms, of companyId s out]
  by simp

text \<open>
  C8 amended, on the sample data: after a company has been registered, the same lookups
  are answered alike and company 7 gets the same three alerts, those of the main
  warehouse in the order of its rows, then that of the overflow warehouse.
\<close>

theorem alerts_in_lookup_order_witness:
  "readonly demo \<and>
   same_answers demo demo_store demo demo_store_later \<and>
   demo_store_later \<noteq> demo_store \<and>
   fst (fetchLowStockAlerts demo 7 demo_store) = Inr demo_alerts \<and>
   fst (fetchLowStockAlerts demo 7 demo_store_later) = Inr demo_alerts \<and>
   demo_alerts = concat (map (warehouse_alerts demo demo_store) [wh_main, wh_overflow]) \<and>
   warehouse_alerts demo demo_store wh_main = [alert_widget_e, alert_widget_b] \<and>
   warehouse_alerts demo demo_store wh_overflow = [alert_kit_d]"
proof -
  have ok: "fst (fetchLowStockAlerts demo 7 demo_store) = Inr demo_alerts"
    by (simp add: fetch_demo)
  have same: "same_answers demo demo_store demo demo_store_later"
    by (simp add: same_answers_def demo_def demo_store_later_def store_defs)
  have later: "demo_store_later \<noteq> demo_store"
    by (simp add: demo_store_later_def demo_store_def)
  have m: "warehouse_alerts demo demo_store wh_main = [alert_widget_e, alert_widget_b]"
    by (simp add: warehouse_alerts_def inventory_of_def passes_gates_def expected_alert_def
          store_defs demo_defs demo_alerts_defs sample_doubles)
  have o: "warehouse_alerts demo demo_store wh_overflow = [alert_kit_d]"
    by (simp add: warehouse_alerts_def inventory_of_def passes_gates_def expected_alert_def
          store_defs demo_defs demo_alerts_defs sample_doubles)
  show ?thesis
    using readonly_demo ok same later m o
      alerts_in_lookup_order [OF readonly_demo, of demo demo_store demo_store_later 7 demo_alerts]
    by (simp add: company_warehouses_demo)
qed

end
